theory Spec2Isabelle
  imports Complex_Main
begin

section \<open>Data model\<close>

text \<open>
  The development embeds the share-allocation core of \<^verbatim>\<open>objects/sectors/source/sector.cpp\<close>.
  A C++ \<^verbatim>\<open>double\<close> is a \<^typ>\<open>real\<close>: rounding, infinities and NaN are outside the model, and
  every division of the source is written as a division, so a theorem speaks about the
  source only where the divisor is shown to be nonzero. A period is an \<^typ>\<open>int\<close>, as in the
  source (\<^verbatim>\<open>const int period\<close>); a \<^verbatim>\<open>vector\<close> indexed by period is a list read at
  \<open>nat period\<close>, and reading or writing it out of range is undefined behaviour in C++, so
  the theorems that depend on such an access assume the index in range.
\<close>

text \<open>
  Modelled from the spec: the class Subsector (\<^verbatim>\<open>sectors/include/subsector.h\<close>) is not in
  the sources. Section 3 lists what a subsector exposes per period: a share, a fixed output
  quantity, a fixed share, a capacity limit, a capacity-limit-active flag, and calibration
  state; \<open>sub_unnormShare\<close> is the unnormalized share of the technology competition,
  \<open>sub_output\<close> the subsector's output.
\<close>

record subsector =
  sub_unnormShare :: "int \<Rightarrow> real"
  sub_share :: "int \<Rightarrow> real"
  sub_fixedOutput :: "int \<Rightarrow> real"
  sub_fixedShare :: "int \<Rightarrow> real"
  sub_capacityLimit :: "int \<Rightarrow> real"
  sub_capLimitStatus :: "int \<Rightarrow> bool"
  sub_calOutput :: "int \<Rightarrow> real"
  sub_output :: "int \<Rightarrow> real"
  sub_allOutputFixed :: "int \<Rightarrow> bool"

text \<open>Modelled from the spec: \<^verbatim>\<open>Subsector::getShare(period)\<close> (section 4.1) reads the share.\<close>

definition Subsector_getShare :: "subsector \<Rightarrow> int \<Rightarrow> real" where
  "Subsector_getShare sub period = sub_share sub period"

text \<open>Modelled from the spec: \<^verbatim>\<open>Subsector::getFixedOutput(period)\<close> (section 4.1) reads the
  fixed output quantity, 0 if none.\<close>

definition Subsector_getFixedOutput :: "subsector \<Rightarrow> int \<Rightarrow> real" where
  "Subsector_getFixedOutput sub period = sub_fixedOutput sub period"

text \<open>Modelled from the spec: \<^verbatim>\<open>Subsector::getFixedShare(period)\<close> (section 4.1) reads the
  fixed share.\<close>

definition Subsector_getFixedShare :: "subsector \<Rightarrow> int \<Rightarrow> real" where
  "Subsector_getFixedShare sub period = sub_fixedShare sub period"

text \<open>Modelled from the spec: \<^verbatim>\<open>Subsector::setFixedShare(period, share)\<close> (section 4.1)
  stores the fixed share.\<close>

definition Subsector_setFixedShare :: "int \<Rightarrow> real \<Rightarrow> subsector \<Rightarrow> subsector" where
  "Subsector_setFixedShare period v sub = sub\<lparr>sub_fixedShare := (sub_fixedShare sub)(period := v)\<rparr>"

text \<open>Modelled from the spec: \<^verbatim>\<open>Subsector::getCapacityLimit(period)\<close> (section 4.1) reads the
  capacity limit, a fraction with default 1.\<close>

definition Subsector_getCapacityLimit :: "subsector \<Rightarrow> int \<Rightarrow> real" where
  "Subsector_getCapacityLimit sub period = sub_capacityLimit sub period"

text \<open>Modelled from the spec: \<^verbatim>\<open>Subsector::getCapLimitStatus(period)\<close> (section 4.1) reads the
  capacity-limit-active flag.\<close>

definition Subsector_getCapLimitStatus :: "subsector \<Rightarrow> int \<Rightarrow> bool" where
  "Subsector_getCapLimitStatus sub period = sub_capLimitStatus sub period"

text \<open>Modelled from the spec: \<^verbatim>\<open>Subsector::setCapLimitStatus(status, period)\<close> (section 4.1)
  stores the capacity-limit-active flag.\<close>

definition Subsector_setCapLimitStatus :: "bool \<Rightarrow> int \<Rightarrow> subsector \<Rightarrow> subsector" where
  "Subsector_setCapLimitStatus v period sub =
     sub\<lparr>sub_capLimitStatus := (sub_capLimitStatus sub)(period := v)\<rparr>"

text \<open>Modelled from the spec: \<^verbatim>\<open>Subsector::getTotalCalOutputs(period)\<close> is the subsector's
  calibrated output that section 4.4 sums into \<open>calOutputs\<close>.\<close>

definition Subsector_getTotalCalOutputs :: "subsector \<Rightarrow> int \<Rightarrow> real" where
  "Subsector_getTotalCalOutputs sub period = sub_calOutput sub period"

text \<open>Modelled from the spec: \<^verbatim>\<open>Subsector::getOutput(period)\<close> is the subsector's output that
  the sector sums into its total output (section 4.5, supply).\<close>

definition Subsector_getOutput :: "subsector \<Rightarrow> int \<Rightarrow> real" where
  "Subsector_getOutput sub period = sub_output sub period"

text \<open>Modelled from the spec: \<^verbatim>\<open>Subsector::allOuputFixed(period)\<close> tells whether the
  subsector's output is fixed or calibrated (section 4.4, "all outputs are
  fixed-or-calibrated").\<close>

definition Subsector_allOuputFixed :: "subsector \<Rightarrow> int \<Rightarrow> bool" where
  "Subsector_allOuputFixed sub period = sub_allOutputFixed sub period"

text \<open>
  The member functions of Subsector that compute are parameters of the embedding: the
  sector code is verified against every implementation of them. \<open>m_capLimitTransform\<close> is the
  static \<^verbatim>\<open>Subsector::capLimitTransform(capLimit, share)\<close>. The \<^verbatim>\<open>GDP\<close> pointer that
  \<^verbatim>\<open>calcShare\<close> and \<^verbatim>\<open>setoutput\<close> only hand through is part of these parameters.
\<close>

record subsector_methods =
  m_calcShare :: "int \<Rightarrow> subsector \<Rightarrow> subsector"
  m_normShare :: "real \<Rightarrow> int \<Rightarrow> subsector \<Rightarrow> subsector"
  m_setShareToFixedValue :: "int \<Rightarrow> subsector \<Rightarrow> subsector"
  m_scalefixedOutput :: "real \<Rightarrow> int \<Rightarrow> subsector \<Rightarrow> subsector"
  m_resetfixedOutput :: "int \<Rightarrow> subsector \<Rightarrow> subsector"
  m_limitShares :: "real \<Rightarrow> int \<Rightarrow> subsector \<Rightarrow> subsector"
  m_adjShares :: "real \<Rightarrow> real \<Rightarrow> real \<Rightarrow> int \<Rightarrow> subsector \<Rightarrow> subsector"
  m_setoutput :: "real \<Rightarrow> int \<Rightarrow> subsector \<Rightarrow> subsector"
  m_capLimitTransform :: "real \<Rightarrow> real \<Rightarrow> real"

text \<open>
  What the sector reads from outside itself: the constants \<^verbatim>\<open>util::getSmallNumber()\<close> and
  \<^verbatim>\<open>util::getTinyNumber()\<close>, the predicate \<^verbatim>\<open>util::isValidNumber\<close>, the configuration flag
  \<^verbatim>\<open>CalibrationActive\<close>, and the marketplace's demand for the sector's good in a period
  (\<^verbatim>\<open>marketplace->getDemand( name, regionName, period )\<close>). None of them is in the sources,
  so they are parameters.
\<close>

record env =
  getSmallNumber :: real
  getTinyNumber :: real
  isValidNumber :: "real \<Rightarrow> bool"
  calibrationActive :: bool
  getDemand :: "int \<Rightarrow> real"

text \<open>The members of Sector that the share allocation reads and writes; \<open>sec_output\<close> is
  the member \<^verbatim>\<open>output\<close>, the sector's total output by period.\<close>

record sector =
  subsec :: "subsector list"
  sec_output :: "real list"
  capLimitsPresent :: "bool list"
  anyFixedCapacity :: bool
  debugChecking :: bool

text \<open>What the source writes to \<^verbatim>\<open>cerr\<close>, \<^verbatim>\<open>cout\<close> and the main log.\<close>

datatype logmsg =
    IllegalSubsectorNumber int
  | InsufficientCapacity
  | CapLimitNotResolved
  | SharesDoNotSumToOne real
  | CalibrationWarning real real
  | NegativeDemand
  | InvalidOutput nat
  | SupplyDemandMismatch

text \<open>A failed \<^verbatim>\<open>assert\<close> aborts the run.\<close>

datatype error = AssertionFailed

text \<open>\<^verbatim>\<open>nosubsec\<close> is set to \<^verbatim>\<open>subsec.size()\<close> by \<^verbatim>\<open>completeInit\<close> and never changed.\<close>

definition nosubsec :: "sector \<Rightarrow> int" where
  "nosubsec s = int (length (subsec s))"

section \<open>Sums over the subsectors\<close>

definition getFixedOutput :: "sector \<Rightarrow> int \<Rightarrow> real" where
  "getFixedOutput s period =
     fold (\<lambda>sub totalfixedOutput. totalfixedOutput + Subsector_getFixedOutput sub period) (subsec s) 0"

definition getCalOutput :: "sector \<Rightarrow> int \<Rightarrow> real" where
  "getCalOutput s period =
     fold (\<lambda>sub totalCalOutput. totalCalOutput + Subsector_getTotalCalOutputs sub period) (subsec s) 0"

definition getOutput :: "sector \<Rightarrow> int \<Rightarrow> real" where
  "getOutput s period = sec_output s ! nat period"

definition outputsAllFixed :: "sector \<Rightarrow> int \<Rightarrow> bool" where
  "outputsAllFixed s period =
     (if period < 0 then False
      else list_all (\<lambda>sub. Subsector_allOuputFixed sub period) (subsec s))"

definition getFixedShare :: "env \<Rightarrow> sector \<Rightarrow> int \<Rightarrow> int \<Rightarrow> logmsg list \<times> real" where
  "getFixedShare e s subsectorNum period =
     (if subsectorNum \<ge> 0 \<and> subsectorNum < nosubsec s then
        (let fixedShare = Subsector_getFixedShare (subsec s ! nat subsectorNum) period in
         if fixedShare > 0 then
           (let mktDmd = getDemand e period in
            if mktDmd > 0
            then ([], Subsector_getFixedOutput (subsec s ! nat subsectorNum) period / mktDmd)
            else ([], fixedShare))
         else ([], fixedShare))
      else ([IllegalSubsectorNumber subsectorNum], 0))"

section \<open>Calibration Checker\<close>

text \<open>
  \<^verbatim>\<open>Sector::isAllCalibrated\<close>. The result is the log and the boolean returned.
  \<^verbatim>\<open>abs(diffFraction)\<close> is read as the absolute value of a double.
\<close>

definition isAllCalibrated :: "env \<Rightarrow> sector \<Rightarrow> int \<Rightarrow> real \<Rightarrow> bool \<Rightarrow> logmsg list \<times> bool" where
  "isAllCalibrated e s period calAccuracy printWarnings =
     (if period > 0 \<and> calibrationActive e then
        (let calOutputs = getCalOutput s period;
             totalFixed = calOutputs + getFixedOutput s period;
             calDiff = totalFixed - getOutput s period
         in if calOutputs > 0 then
              (let diffFraction = calDiff / calOutputs in
               if calDiff > calAccuracy \<or> (\<bar>diffFraction\<bar> > calAccuracy \<and> outputsAllFixed s period)
               then (if printWarnings then [CalibrationWarning totalFixed calDiff] else [], False)
               else ([], True))
            else ([], True))
      else ([], True))"

section \<open>Sector output\<close>

text \<open>\<^verbatim>\<open>Sector::sumOutput\<close>: \<^verbatim>\<open>output[ period ]\<close> is zeroed and each subsector's output is
  added to it in place; an invalid number is reported and added all the same.\<close>

definition sumOutput_step :: "env \<Rightarrow> int \<Rightarrow> nat \<times> subsector \<Rightarrow> logmsg list \<times> sector \<Rightarrow> logmsg list \<times> sector" where
  "sumOutput_step e period = (\<lambda>(i, sub) (lg, s).
     let temp = Subsector_getOutput sub period;
         s1 = s\<lparr>sec_output := (sec_output s)[nat period := sec_output s ! nat period + temp]\<rparr>
     in (if \<not> isValidNumber e temp then lg @ [InvalidOutput i] else lg, s1))"

definition sumOutput :: "env \<Rightarrow> int \<Rightarrow> sector \<Rightarrow> logmsg list \<times> sector" where
  "sumOutput e period s =
     fold (sumOutput_step e period) (enumerate 0 (subsec s))
       ([], s\<lparr>sec_output := (sec_output s)[nat period := 0]\<rparr>)"

text \<open>\<^verbatim>\<open>Sector::updateAndGetOutput\<close>: the value returned, the log, and the sector.\<close>

definition updateAndGetOutput :: "env \<Rightarrow> int \<Rightarrow> sector \<Rightarrow> real \<times> logmsg list \<times> sector" where
  "updateAndGetOutput e period s =
     (if period > 0 \<or> sec_output s ! nat period = 0 then
        (let (lg, s1) = sumOutput e period s in (sec_output s1 ! nat period, lg, s1))
      else (sec_output s ! nat period, [], s))"

section \<open>Capacity-Limit Resolver\<close>

text \<open>The ceiling that one pass of \<^verbatim>\<open>Sector::adjSharesCapLimit\<close> compares a subsector's share
  with (\<^verbatim>\<open>tempCapacityLimit\<close>): the share itself once the subsector is marked capacity
  limited, the transformed capacity limit otherwise.\<close>

definition tempCapacityLimit :: "subsector_methods \<Rightarrow> int \<Rightarrow> subsector \<Rightarrow> real" where
  "tempCapacityLimit m period sub =
     (if Subsector_getCapLimitStatus sub period then Subsector_getShare sub period
      else m_capLimitTransform m (Subsector_getCapacityLimit sub period)
             (Subsector_getShare sub period))"

text \<open>The test \<^verbatim>\<open>tempSubSectShare - tempCapacityLimit > SMALL_NUM\<close>.\<close>

definition overLimit :: "subsector_methods \<Rightarrow> env \<Rightarrow> int \<Rightarrow> subsector \<Rightarrow> bool" where
  "overLimit m e period sub =
     (Subsector_getShare sub period - tempCapacityLimit m period sub > getSmallNumber e)"

text \<open>The body of the loop over the subsectors, on the locals \<^verbatim>\<open>capLimited\<close>,
  \<^verbatim>\<open>sumSharesOverLimit\<close>, \<^verbatim>\<open>sumSharesNotLimited\<close> and \<^verbatim>\<open>totalFixedShares\<close>.\<close>

definition capLimitScanStep ::
  "subsector_methods \<Rightarrow> env \<Rightarrow> int \<Rightarrow> subsector \<Rightarrow> bool \<times> real \<times> real \<times> real
     \<Rightarrow> bool \<times> real \<times> real \<times> real" where
  "capLimitScanStep m e period sub =
     (\<lambda>(capLimited, sumSharesOverLimit, sumSharesNotLimited, totalFixedShares).
        let tempSubSectShare = Subsector_getShare sub period;
            tempCapLimit = tempCapacityLimit m period sub;
            over = (tempSubSectShare - tempCapLimit > getSmallNumber e);
            capLimited1 = (if over then True else capLimited);
            sumSharesOverLimit1 =
              (if over then sumSharesOverLimit + (tempSubSectShare - tempCapLimit)
               else sumSharesOverLimit);
            sumSharesNotLimited1 =
              (if tempSubSectShare < tempCapLimit then sumSharesNotLimited + tempSubSectShare
               else sumSharesNotLimited);
            fixed = (Subsector_getFixedShare sub period > 0);
            sumSharesNotLimited2 =
              (if fixed then sumSharesNotLimited1 - tempSubSectShare else sumSharesNotLimited1);
            totalFixedShares1 =
              (if fixed then totalFixedShares + Subsector_getFixedShare sub period
               else totalFixedShares)
        in (capLimited1, sumSharesOverLimit1, sumSharesNotLimited2, totalFixedShares1))"

definition capLimitScan ::
  "subsector_methods \<Rightarrow> env \<Rightarrow> int \<Rightarrow> subsector list \<Rightarrow> real \<Rightarrow> bool \<times> real \<times> real \<times> real" where
  "capLimitScan m e period subs totalFixedShares =
     fold (capLimitScanStep m e period) subs (False, 0, 0, totalFixedShares)"

text \<open>One pass of the outer loop: the scan, then the renormalisation or the report. The state
  is \<^verbatim>\<open>totalFixedShares\<close>, the log and the sector; the flag \<^verbatim>\<open>capLimited\<close> is returned in
  front.\<close>

definition capLimitIteration ::
  "subsector_methods \<Rightarrow> env \<Rightarrow> int \<Rightarrow> real \<times> logmsg list \<times> sector
     \<Rightarrow> bool \<times> real \<times> logmsg list \<times> sector" where
  "capLimitIteration m e period = (\<lambda>(totalFixedShares, lg, s).
     let (capLimited, sumSharesOverLimit, sumSharesNotLimited, totalFixedShares1) =
           capLimitScan m e period (subsec s) totalFixedShares
     in if capLimited then
          (if sumSharesNotLimited > 0 then
             (capLimited, totalFixedShares1, lg,
              s\<lparr>subsec := map (m_limitShares m (1 + sumSharesOverLimit / sumSharesNotLimited) period)
                             (subsec s)\<rparr>)
           else if sumSharesOverLimit > 0 then
             (capLimited, totalFixedShares1, lg @ [InsufficientCapacity], s)
           else (capLimited, totalFixedShares1, lg, s))
        else (capLimited, totalFixedShares1, lg, s))"

text \<open>The outer loop \<^verbatim>\<open>for (int n = 0; n < nosubsec && capLimited; n++)\<close>. The value of
  \<^verbatim>\<open>n\<close> at the exit, the number of passes made, is returned in front.\<close>

function capLimitLoop ::
  "subsector_methods \<Rightarrow> env \<Rightarrow> int \<Rightarrow> nat \<Rightarrow> bool \<times> real \<times> logmsg list \<times> sector
     \<Rightarrow> nat \<times> bool \<times> real \<times> logmsg list \<times> sector" where
  "capLimitLoop m e period n (capLimited, totalFixedShares, lg, s) =
     (if int n < nosubsec s \<and> capLimited
      then capLimitLoop m e period (Suc n) (capLimitIteration m e period (totalFixedShares, lg, s))
      else (n, capLimited, totalFixedShares, lg, s))"
  by pat_completeness auto
termination
  by (relation "measure (\<lambda>(m, e, period, n, st). length (subsec (snd (snd (snd st)))) - n)")
     (auto simp: nosubsec_def capLimitIteration_def split_beta Let_def)

text \<open>\<^verbatim>\<open>Sector::adjSharesCapLimit\<close>: \<^verbatim>\<open>capLimited\<close> starts true and \<^verbatim>\<open>totalFixedShares\<close> at 0.\<close>

definition adjSharesCapLimit ::
  "subsector_methods \<Rightarrow> env \<Rightarrow> int \<Rightarrow> sector \<Rightarrow> logmsg list \<times> sector" where
  "adjSharesCapLimit m e period s =
     (let (n, capLimited, totalFixedShares, lg, s1) = capLimitLoop m e period 0 (True, 0, [], s)
      in (if capLimited then lg @ [CapLimitNotResolved] else lg, s1))"

text \<open>The number of passes of the outer loop that \<^verbatim>\<open>adjSharesCapLimit\<close> makes.\<close>

definition adjSharesCapLimit_passes :: "subsector_methods \<Rightarrow> env \<Rightarrow> int \<Rightarrow> sector \<Rightarrow> nat" where
  "adjSharesCapLimit_passes m e period s = fst (capLimitLoop m e period 0 (True, 0, [], s))"

section \<open>Share calculation\<close>



text \<open>The body of the first loop of \<^verbatim>\<open>Sector::calcShare\<close>, on the sector and the locals
  \<^verbatim>\<open>sum\<close> and \<^verbatim>\<open>fixedSum\<close>.\<close>

definition calcShare_sumStep ::
  "subsector_methods \<Rightarrow> env \<Rightarrow> int \<Rightarrow> nat \<Rightarrow> sector \<times> real \<times> real \<times> logmsg list
     \<Rightarrow> sector \<times> real \<times> real \<times> logmsg list" where
  "calcShare_sumStep m e period i = (\<lambda>(s, shareSum, fixedSum, lg).
     let s1 = s\<lparr>subsec := (subsec s)[i := m_calcShare m period (subsec s ! i)]\<rparr>;
         (lg1, fixedShare) =
           (if anyFixedCapacity s1 then getFixedShare e s1 (int i) period else ([], 0));
         fixedSum1 = (if anyFixedCapacity s1 then fixedSum + fixedShare else fixedSum);
         shareSum1 =
           (if fixedShare < getTinyNumber e
            then shareSum + Subsector_getShare (subsec s1 ! i) period else shareSum);
         s2 = s1\<lparr>subsec := (subsec s1)[i := Subsector_setCapLimitStatus False period (subsec s1 ! i)]\<rparr>
     in (s2, shareSum1, fixedSum1, lg @ lg1))"

text \<open>The body of the second loop of \<^verbatim>\<open>Sector::calcShare\<close>.\<close>

definition calcShare_normStep ::
  "subsector_methods \<Rightarrow> env \<Rightarrow> int \<Rightarrow> real \<Rightarrow> real \<Rightarrow> real \<Rightarrow> nat \<Rightarrow> sector \<times> logmsg list
     \<Rightarrow> sector \<times> logmsg list" where
  "calcShare_normStep m e period shareSum fixedSum scaleFixedShare i = (\<lambda>(s, lg).
     if Subsector_getFixedOutput (subsec s ! i) period = 0 then
       (if fixedSum < 1 then
          (s\<lparr>subsec := (subsec s)[i := m_normShare m (shareSum / (1 - fixedSum)) period (subsec s ! i)]\<rparr>, lg)
        else
          (s\<lparr>subsec := (subsec s)[i := m_normShare m (shareSum / getTinyNumber e) period (subsec s ! i)]\<rparr>, lg))
     else
       (let (lg1, fs) = getFixedShare e s (int i) period;
            fixedShare = fs * scaleFixedShare;
            currentShare = Subsector_getFixedShare (subsec s ! i) period;
            sub1 = m_setShareToFixedValue m period (subsec s ! i);
            sub2 = (if currentShare > 0
                    then m_scalefixedOutput m (fixedShare / currentShare) period sub1 else sub1);
            sub3 = m_setShareToFixedValue m period sub2
        in (s\<lparr>subsec := (subsec s)[i := sub3]\<rparr>, lg @ lg1)))"


section \<open>Fixed-Output Adjuster\<close>

text \<open>The body of the first loop of \<^verbatim>\<open>Sector::adjustForFixedOutput\<close>, on one subsector and
  the locals \<^verbatim>\<open>totalfixedOutput\<close> and \<^verbatim>\<open>variableShares\<close>.\<close>

definition sumFixedOutput_body ::
  "subsector_methods \<Rightarrow> real \<Rightarrow> int \<Rightarrow> subsector \<Rightarrow> real \<Rightarrow> real \<Rightarrow> subsector \<times> real \<times> real" where
  "sumFixedOutput_body m marketDemand period sub totalfixedOutput variableShares =
     (let sub1 = m_resetfixedOutput m period sub;
          fixedOutput = Subsector_getFixedOutput sub1 period;
          sub2 = Subsector_setFixedShare period 0 sub1;
          variableShares1 =
            (if fixedOutput = 0 then variableShares + Subsector_getShare sub2 period
             else variableShares);
          sub3 =
            (if fixedOutput = 0 then sub2
             else if marketDemand \<noteq> 0 then
               (let shareVal = fixedOutput / marketDemand;
                    shareVal1 = (if shareVal > 1 then 1 else shareVal)
                in Subsector_setFixedShare period shareVal1 sub2)
             else sub2)
      in (sub3, totalfixedOutput + fixedOutput, variableShares1))"

text \<open>The first loop of \<^verbatim>\<open>Sector::adjustForFixedOutput\<close>: each subsector in turn.\<close>

fun sumFixedOutput_loop ::
  "subsector_methods \<Rightarrow> real \<Rightarrow> int \<Rightarrow> subsector list \<Rightarrow> real \<Rightarrow> real
     \<Rightarrow> subsector list \<times> real \<times> real" where
  "sumFixedOutput_loop m marketDemand period [] totalfixedOutput variableShares =
     ([], totalfixedOutput, variableShares)"
| "sumFixedOutput_loop m marketDemand period (sub # rest) totalfixedOutput variableShares =
     (let (sub3, totalfixedOutput1, variableShares1) =
            sumFixedOutput_body m marketDemand period sub totalfixedOutput variableShares;
          (rest1, totalfixedOutput2, variableShares2) =
            sumFixedOutput_loop m marketDemand period rest totalfixedOutput1 variableShares1
      in (sub3 # rest1, totalfixedOutput2, variableShares2))"

text \<open>The scaling down of the fixed output when it exceeds the demand.\<close>

definition scaleDownFixedOutput ::
  "subsector_methods \<Rightarrow> real \<Rightarrow> int \<Rightarrow> subsector list \<Rightarrow> real \<Rightarrow> subsector list \<times> real" where
  "scaleDownFixedOutput m marketDemand period subs totalfixedOutput =
     (if totalfixedOutput > marketDemand then
        (map (m_scalefixedOutput m (marketDemand / totalfixedOutput) period) subs, marketDemand)
      else (subs, totalfixedOutput))"

text \<open>\<^verbatim>\<open>Sector::adjustForFixedOutput\<close>. The source returns nothing; the model returns the final
  value of the local \<^verbatim>\<open>totalfixedOutput\<close> beside the sector.\<close>

definition adjustForFixedOutput ::
  "subsector_methods \<Rightarrow> real \<Rightarrow> int \<Rightarrow> sector \<Rightarrow> error + real \<times> sector" where
  "adjustForFixedOutput m marketDemand period s =
     (let (subs1, totalfixedOutput0, variableShares) =
            sumFixedOutput_loop m marketDemand period (subsec s) 0 0;
          (subs2, totalfixedOutput) =
            scaleDownFixedOutput m marketDemand period subs1 totalfixedOutput0
      in if totalfixedOutput > 0 then
           (case (if totalfixedOutput > marketDemand then Inr 0
                  else if marketDemand = 0 then Inl AssertionFailed
                  else Inr (1 - totalfixedOutput / marketDemand)) of
              Inl err \<Rightarrow> Inl err
            | Inr variableSharesNew \<Rightarrow>
                (let shareRatio =
                       (if variableShares = 0 then 0 else variableSharesNew / variableShares)
                 in Inr (totalfixedOutput,
                         s\<lparr>subsec := map (m_adjShares m marketDemand shareRatio totalfixedOutput period)
                                        subs2\<rparr>)))
         else Inr (totalfixedOutput, s\<lparr>subsec := subs2\<rparr>))"

section \<open>Supply\<close>

text \<open>\<^verbatim>\<open>Sector::supply\<close>; the name \<open>supply\<close> is taken by Isar.\<close>

definition Sector_supply :: "subsector_methods \<Rightarrow> env \<Rightarrow> int \<Rightarrow> sector \<Rightarrow> error + logmsg list \<times> sector" where
  "Sector_supply m e period s =
     (let mrkdmd = getDemand e period;
          lg0 = (if mrkdmd < 0 then [NegativeDemand] else [])
      in case (if anyFixedCapacity s then adjustForFixedOutput m mrkdmd period s else Inr (0, s)) of
           Inl err \<Rightarrow> Inl err
         | Inr (t, s1) \<Rightarrow>
             (let s2 = s1\<lparr>subsec := map (m_setoutput m mrkdmd period) (subsec s1)\<rparr>
              in if debugChecking s2 then
                   (let (mrksupply, lg1, s3) = updateAndGetOutput e period s2
                    in Inr (lg0 @ lg1 @
                            (if period > 0 \<and> \<bar>mrksupply - mrkdmd\<bar> > 1 / 100 \<and> mrkdmd \<noteq> 1
                             then [SupplyDemandMismatch] else []), s3))
                 else Inr (lg0, s2)))"

section \<open>A reference subsector\<close>

text \<open>
  The theorems below hold for every implementation of the subsector's member functions. To
  run the sector code on concrete inputs, one implementation is fixed here, following what
  the specification says of each member function.
\<close>

text \<open>Modelled from the spec: \<^verbatim>\<open>Subsector::calcShare\<close> is not in the sources; section 4.1:
  "computes raw share from internal technology competition". The technologies are out of
  scope, so the raw share is the subsector's unnormalized share (section 3).\<close>

definition ref_calcShare :: "int \<Rightarrow> subsector \<Rightarrow> subsector" where
  "ref_calcShare period sub = sub\<lparr>sub_share := (sub_share sub)(period := sub_unnormShare sub period)\<rparr>"

text \<open>Modelled from the spec: \<^verbatim>\<open>Subsector::normShare\<close> is not in the sources; section 4.1 calls
  it the primitive "used to renormalize", and section 4.5 has \<open>calcShare\<close> normalize the
  variable shares "to sum/(1 - fixedSum)", the value that \<^verbatim>\<open>Sector::calcShare\<close> passes: the
  share is divided by the argument.\<close>

definition ref_normShare :: "real \<Rightarrow> int \<Rightarrow> subsector \<Rightarrow> subsector" where
  "ref_normShare shareSum period sub =
     sub\<lparr>sub_share := (sub_share sub)(period := sub_share sub period / shareSum)\<rparr>"

text \<open>Modelled from the spec: \<^verbatim>\<open>Subsector::setShareToFixedValue\<close> is not in the sources;
  section 4.5 (from the comment of \<^verbatim>\<open>Sector::calcShare\<close>): subsectors with fixed output are
  reset to their fixed share.\<close>

definition ref_setShareToFixedValue :: "int \<Rightarrow> subsector \<Rightarrow> subsector" where
  "ref_setShareToFixedValue period sub =
     sub\<lparr>sub_share := (sub_share sub)(period := sub_fixedShare sub period)\<rparr>"

text \<open>Modelled from the spec: \<^verbatim>\<open>Subsector::scalefixedOutput\<close> is not in the sources; section
  4.2: "scale every subsector's fixed output by" the factor.\<close>

definition ref_scalefixedOutput :: "real \<Rightarrow> int \<Rightarrow> subsector \<Rightarrow> subsector" where
  "ref_scalefixedOutput scaleRatio period sub =
     sub\<lparr>sub_fixedOutput := (sub_fixedOutput sub)(period := sub_fixedOutput sub period * scaleRatio)\<rparr>"

text \<open>Modelled from the spec: \<^verbatim>\<open>Subsector::resetfixedOutput\<close> is not in the sources and the
  specification does not describe it; section 4.2 has the adjuster "compute its fixed
  output" for every subsector. The reference subsector's fixed output is the one to
  compute with, so resetting leaves it as it is.\<close>

definition ref_resetfixedOutput :: "int \<Rightarrow> subsector \<Rightarrow> subsector" where
  "ref_resetfixedOutput period sub = sub"

text \<open>Modelled from the spec: \<^verbatim>\<open>Subsector::capLimitTransform\<close> is not in the sources; section
  4.3: "a monotone transform function of (capacity limit, current share)" that gives the
  effective share ceiling. The reference transform is the capacity limit itself.\<close>

definition ref_capLimitTransform :: "real \<Rightarrow> real \<Rightarrow> real" where
  "ref_capLimitTransform capLimit orgShare = capLimit"

text \<open>Modelled from the spec: \<^verbatim>\<open>Subsector::limitShares\<close> is not in the sources; sections 4.1
  and 4.3: it "caps share at the transformed limit", marks the subsector capacity limited,
  increases the subsectors under their ceiling by the multiplier, and never touches a
  fixed-share subsector.\<close>

definition ref_limitShares :: "real \<Rightarrow> int \<Rightarrow> subsector \<Rightarrow> subsector" where
  "ref_limitShares multiplier period sub =
     (let capLimitValue = ref_capLimitTransform (sub_capacityLimit sub period) (sub_share sub period)
      in if sub_fixedShare sub period > 0 then sub
         else if sub_share sub period \<ge> capLimitValue then
           (if sub_capLimitStatus sub period then sub
            else sub\<lparr>sub_share := (sub_share sub)(period := capLimitValue),
                     sub_capLimitStatus := (sub_capLimitStatus sub)(period := True)\<rparr>)
         else sub\<lparr>sub_share := (sub_share sub)(period := sub_share sub period * multiplier)\<rparr>)"

text \<open>Modelled from the spec: \<^verbatim>\<open>Subsector::adjShares\<close> is not in the sources; sections 3, 4.2
  and 8 (property 6): a subsector with fixed output takes the implied share
  \<open>fixedOutput / marketDemand\<close> when the demand is positive, a variable subsector has its
  share multiplied by \<open>shareRatio\<close>.\<close>

definition ref_adjShares :: "real \<Rightarrow> real \<Rightarrow> real \<Rightarrow> int \<Rightarrow> subsector \<Rightarrow> subsector" where
  "ref_adjShares demand shareRatio totalfixedOutput period sub =
     (if sub_fixedOutput sub period \<noteq> 0 then
        (if demand > 0
         then sub\<lparr>sub_share := (sub_share sub)(period := sub_fixedOutput sub period / demand)\<rparr>
         else sub)
      else sub\<lparr>sub_share := (sub_share sub)(period := sub_share sub period * shareRatio)\<rparr>)"

text \<open>Modelled from the spec: \<^verbatim>\<open>Subsector::setoutput\<close> is not in the sources; section 4.5:
  supply "distributes demand to every subsector via setoutput". A subsector's part of the
  demand is its share of it.\<close>

definition ref_setoutput :: "real \<Rightarrow> int \<Rightarrow> subsector \<Rightarrow> subsector" where
  "ref_setoutput demand period sub =
     sub\<lparr>sub_output := (sub_output sub)(period := sub_share sub period * demand)\<rparr>"

definition ref_methods :: subsector_methods where
  "ref_methods =
     \<lparr>m_calcShare = ref_calcShare, m_normShare = ref_normShare,
      m_setShareToFixedValue = ref_setShareToFixedValue,
      m_scalefixedOutput = ref_scalefixedOutput, m_resetfixedOutput = ref_resetfixedOutput,
      m_limitShares = ref_limitShares, m_adjShares = ref_adjShares,
      m_setoutput = ref_setoutput, m_capLimitTransform = ref_capLimitTransform\<rparr>"

text \<open>An environment with \<open>SMALL_NUM = 1e-10\<close> (the value section 3 gives as an example),
  a tiny number of \<open>1e-16\<close>, every number valid, calibration active, and a market demand
  fixed per example.\<close>

definition ex_env :: "real \<Rightarrow> env" where
  "ex_env demand =
     \<lparr>getSmallNumber = 1 / 10000000000, getTinyNumber = 1 / 10000000000000000,
      isValidNumber = (\<lambda>x. True), calibrationActive = True, getDemand = (\<lambda>period. demand)\<rparr>"

text \<open>A subsector of the examples, the same in every period: its share, fixed output, fixed
  share and capacity limit are given, its unnormalized share is its share, it is not marked
  capacity limited, and it has no calibrated output.\<close>

definition ex_sub :: "real \<Rightarrow> real \<Rightarrow> real \<Rightarrow> real \<Rightarrow> subsector" where
  "ex_sub share fixedOut fixedSh capLimit =
     \<lparr>sub_unnormShare = (\<lambda>period. share), sub_share = (\<lambda>period. share),
      sub_fixedOutput = (\<lambda>period. fixedOut), sub_fixedShare = (\<lambda>period. fixedSh),
      sub_capacityLimit = (\<lambda>period. capLimit), sub_capLimitStatus = (\<lambda>period. False),
      sub_calOutput = (\<lambda>period. 0), sub_output = (\<lambda>period. 0),
      sub_allOutputFixed = (\<lambda>period. False)\<rparr>"

text \<open>A sector of the examples over two periods, with no stored output and no capacity
  limit noted.\<close>

definition ex_sector :: "subsector list \<Rightarrow> bool \<Rightarrow> bool \<Rightarrow> sector" where
  "ex_sector subs anyFixed debug =
     \<lparr>subsec = subs, sec_output = [0, 0], capLimitsPresent = [False, False],
      anyFixedCapacity = anyFixed, debugChecking = debug\<rparr>"

section \<open>Properties\<close>


subsection \<open>Sums and the sector output\<close>

lemma fold_add_sum_list:
  "fold (\<lambda>x (acc::real). acc + f x) xs a = a + sum_list (map f xs)"
  by (induction xs arbitrary: a) simp_all

lemma sumOutput_fold_output:
  "nat period < length (sec_output s) \<Longrightarrow>
   sec_output (snd (fold (sumOutput_step e period) xs (lg, s))) =
     (sec_output s)[nat period := sec_output s ! nat period
        + (\<Sum>x\<leftarrow>xs. Subsector_getOutput (snd x) period)]"
proof (induction xs arbitrary: lg s)
  case Nil
  then show ?case by simp
next
  case (Cons x xs)
  obtain i sub where x: "x = (i, sub)" by (cases x)
  let ?s1 = "s\<lparr>sec_output := (sec_output s)[nat period := sec_output s ! nat period + Subsector_getOutput sub period]\<rparr>"
  let ?lg1 = "if \<not> isValidNumber e (Subsector_getOutput sub period) then lg @ [InvalidOutput i] else lg"
  have step: "sumOutput_step e period (i, sub) (lg, s) = (?lg1, ?s1)"
    by (simp add: sumOutput_step_def Let_def)
  have len: "nat period < length (sec_output ?s1)" using Cons.prems by simp
  have "sec_output (snd (fold (sumOutput_step e period) xs (?lg1, ?s1))) =
     (sec_output ?s1)[nat period := sec_output ?s1 ! nat period
        + (\<Sum>x\<leftarrow>xs. Subsector_getOutput (snd x) period)]"
    by (rule Cons.IH [OF len])
  then show ?case
    using Cons.prems by (simp add: step x add.assoc)
qed


lemma getCalOutput_sum:
  "getCalOutput s period = (\<Sum>sub\<leftarrow>subsec s. Subsector_getTotalCalOutputs sub period)"
  by (simp add: getCalOutput_def fold_add_sum_list)

lemma getFixedOutput_sum:
  "getFixedOutput s period = (\<Sum>sub\<leftarrow>subsec s. Subsector_getFixedOutput sub period)"
  by (simp add: getFixedOutput_def fold_add_sum_list)

lemma sumOutput_fold_rest:
  "subsec (snd (fold (sumOutput_step e period) xs (lg, s))) = subsec s \<and>
   capLimitsPresent (snd (fold (sumOutput_step e period) xs (lg, s))) = capLimitsPresent s \<and>
   anyFixedCapacity (snd (fold (sumOutput_step e period) xs (lg, s))) = anyFixedCapacity s \<and>
   debugChecking (snd (fold (sumOutput_step e period) xs (lg, s))) = debugChecking s"
  by (induction xs arbitrary: lg s) (simp_all add: sumOutput_step_def Let_def split_beta)

lemma map_snd_enumerate_app:
  "map (\<lambda>x. f (snd x)) (enumerate n xs) = map f xs"
  by (induction xs arbitrary: n) simp_all

lemma sumOutput_output:
  assumes "nat period < length (sec_output s)"
  shows "sec_output (snd (sumOutput e period s)) =
           (sec_output s)[nat period := (\<Sum>sub\<leftarrow>subsec s. Subsector_getOutput sub period)]"
proof -
  let ?s0 = "s\<lparr>sec_output := (sec_output s)[nat period := 0]\<rparr>"
  have len: "nat period < length (sec_output ?s0)" using assms by simp
  have sum: "(\<Sum>x\<leftarrow>enumerate 0 (subsec s). Subsector_getOutput (snd x) period)
      = (\<Sum>sub\<leftarrow>subsec s. Subsector_getOutput sub period)"
    using map_snd_enumerate_app [of "\<lambda>sub. Subsector_getOutput sub period" 0 "subsec s"]
    by simp
  show ?thesis
    unfolding sumOutput_def
    using sumOutput_fold_output [OF len, of e "enumerate 0 (subsec s)" "[]"] assms
    by (simp add: sum)
qed



subsection \<open>The scan of the capacity limits\<close>

lemma capLimitScan_fold:
  "fold (capLimitScanStep m e period) subs (c, ov, nl, tf) =
     (c \<or> list_ex (overLimit m e period) subs,
      ov + (\<Sum>sub\<leftarrow>subs. if overLimit m e period sub
                      then Subsector_getShare sub period - tempCapacityLimit m period sub else 0),
      nl + (\<Sum>sub\<leftarrow>subs. if Subsector_getShare sub period < tempCapacityLimit m period sub
                      then Subsector_getShare sub period else 0)
         - (\<Sum>sub\<leftarrow>subs. if Subsector_getFixedShare sub period > 0
                      then Subsector_getShare sub period else 0),
      tf + (\<Sum>sub\<leftarrow>subs. if Subsector_getFixedShare sub period > 0
                      then Subsector_getFixedShare sub period else 0))"
proof (induction subs arbitrary: c ov nl tf)
  case Nil
  then show ?case by simp
next
  case (Cons sub subs)
  have step: "capLimitScanStep m e period sub (c, ov, nl, tf) =
      (c \<or> overLimit m e period sub,
       ov + (if overLimit m e period sub
             then Subsector_getShare sub period - tempCapacityLimit m period sub else 0),
       nl + (if Subsector_getShare sub period < tempCapacityLimit m period sub
             then Subsector_getShare sub period else 0)
          - (if Subsector_getFixedShare sub period > 0 then Subsector_getShare sub period else 0),
       tf + (if Subsector_getFixedShare sub period > 0
             then Subsector_getFixedShare sub period else 0))"
    by (simp add: capLimitScanStep_def Let_def overLimit_def)
  have "fold (capLimitScanStep m e period) (sub # subs) (c, ov, nl, tf) =
        fold (capLimitScanStep m e period) subs (capLimitScanStep m e period sub (c, ov, nl, tf))"
    by simp
  also note step
  finally show ?case
    by (simp add: Cons.IH)
qed

lemma capLimitScan_eq:
  "capLimitScan m e period subs tf =
     (list_ex (overLimit m e period) subs,
      (\<Sum>sub\<leftarrow>subs. if overLimit m e period sub
                 then Subsector_getShare sub period - tempCapacityLimit m period sub else 0),
      (\<Sum>sub\<leftarrow>subs. if Subsector_getShare sub period < tempCapacityLimit m period sub
                 then Subsector_getShare sub period else 0)
         - (\<Sum>sub\<leftarrow>subs. if Subsector_getFixedShare sub period > 0
                      then Subsector_getShare sub period else 0),
      tf + (\<Sum>sub\<leftarrow>subs. if Subsector_getFixedShare sub period > 0
                      then Subsector_getFixedShare sub period else 0))"
  by (simp add: capLimitScan_def capLimitScan_fold)

lemma sum_list_if_none:
  "\<not> list_ex P xs \<Longrightarrow> (\<Sum>x\<leftarrow>xs. if P x then f x else (0::real)) = 0"
  by (induction xs) simp_all


subsection \<open>One pass and the loop of the Capacity-Limit Resolver\<close>

declare capLimitLoop.simps [simp del]

lemma capLimitIteration_length:
  "length (subsec (snd (snd (snd (capLimitIteration m e period (tf, lg, s)))))) = length (subsec s)"
  by (simp add: capLimitIteration_def split_beta Let_def)

lemma capLimitIteration_frame:
  "debugChecking (snd (snd (snd (capLimitIteration m e period (tf, lg, s))))) = debugChecking s \<and>
   anyFixedCapacity (snd (snd (snd (capLimitIteration m e period (tf, lg, s))))) = anyFixedCapacity s \<and>
   capLimitsPresent (snd (snd (snd (capLimitIteration m e period (tf, lg, s))))) = capLimitsPresent s \<and>
   sec_output (snd (snd (snd (capLimitIteration m e period (tf, lg, s))))) = sec_output s"
  by (simp add: capLimitIteration_def split_beta Let_def)

lemma capLimitIteration_flag:
  "fst (capLimitIteration m e period (tf, lg, s)) = list_ex (overLimit m e period) (subsec s)"
  by (simp add: capLimitIteration_def capLimitScan_eq Let_def)

lemma capLimitIteration_log:
  "set lg \<subseteq> set (fst (snd (snd (capLimitIteration m e period (tf, lg, s)))))"
  by (auto simp: capLimitIteration_def split_beta Let_def)

lemma capLimitIteration_not_limited:
  "\<not> list_ex (overLimit m e period) (subsec s) \<Longrightarrow>
   capLimitIteration m e period (tf, lg, s) =
     (False, snd (snd (snd (capLimitScan m e period (subsec s) tf))), lg, s)"
  by (simp add: capLimitIteration_def capLimitScan_eq Let_def)

lemma capLimitLoop_stop:
  "\<not> (int n < nosubsec s \<and> c) \<Longrightarrow> capLimitLoop m e period n (c, tf, lg, s) = (n, c, tf, lg, s)"
  by (subst capLimitLoop.simps) auto

lemma capLimitLoop_go:
  "int n < nosubsec s \<Longrightarrow> c \<Longrightarrow>
   capLimitLoop m e period n (c, tf, lg, s) =
     capLimitLoop m e period (Suc n) (capLimitIteration m e period (tf, lg, s))"
  by (simp add: capLimitLoop.simps)

lemma capLimitLoop_passes:
  "n \<le> length (subsec (snd (snd (snd st)))) \<Longrightarrow>
   fst (capLimitLoop m e period n st) \<le> length (subsec (snd (snd (snd st))))"
proof (induction m e period n st rule: capLimitLoop.induct)
  case (1 m e period n c tf lg s)
  show ?case
  proof (cases "int n < nosubsec s \<and> c")
    case True
    let ?st = "capLimitIteration m e period (tf, lg, s)"
    have len: "length (subsec (snd (snd (snd ?st)))) = length (subsec s)"
      by (rule capLimitIteration_length)
    have "Suc n \<le> length (subsec (snd (snd (snd ?st))))"
      using True len by (simp add: nosubsec_def)
    then have "fst (capLimitLoop m e period (Suc n) ?st) \<le> length (subsec (snd (snd (snd ?st))))"
      by (rule "1.IH" [OF True])
    then show ?thesis
      using True len by (simp add: capLimitLoop_go)
  next
    case False
    then show ?thesis
      using "1.prems" by (simp add: capLimitLoop_stop)
  qed
qed

lemma capLimitLoop_frame:
  "debugChecking (snd (snd (snd (snd (capLimitLoop m e period n st))))) = debugChecking (snd (snd (snd st))) \<and>
   anyFixedCapacity (snd (snd (snd (snd (capLimitLoop m e period n st))))) = anyFixedCapacity (snd (snd (snd st))) \<and>
   capLimitsPresent (snd (snd (snd (snd (capLimitLoop m e period n st))))) = capLimitsPresent (snd (snd (snd st))) \<and>
   sec_output (snd (snd (snd (snd (capLimitLoop m e period n st))))) = sec_output (snd (snd (snd st))) \<and>
   length (subsec (snd (snd (snd (snd (capLimitLoop m e period n st)))))) = length (subsec (snd (snd (snd st))))"
proof (induction m e period n st rule: capLimitLoop.induct)
  case (1 m e period n c tf lg s)
  show ?case
  proof (cases "int n < nosubsec s \<and> c")
    case True
    show ?thesis
      using "1.IH" [OF True] True capLimitIteration_frame [of m e period tf lg s]
        capLimitIteration_length [of m e period tf lg s]
      by (simp add: capLimitLoop_go)
  next
    case False
    then show ?thesis by (simp add: capLimitLoop_stop)
  qed
qed

lemma capLimitLoop_log:
  "set (fst (snd (snd st))) \<subseteq> set (fst (snd (snd (snd (capLimitLoop m e period n st)))))"
proof (induction m e period n st rule: capLimitLoop.induct)
  case (1 m e period n c tf lg s)
  show ?case
  proof (cases "int n < nosubsec s \<and> c")
    case True
    show ?thesis
      using "1.IH" [OF True] True capLimitIteration_log [of lg m e period tf s]
      by (auto simp: capLimitLoop_go)
  next
    case False
    then show ?thesis by (simp add: capLimitLoop_stop)
  qed
qed

lemma capLimitLoop_resolved:
  "(\<not> fst st \<longrightarrow> \<not> list_ex (overLimit m e period) (subsec (snd (snd (snd st))))) \<Longrightarrow>
   \<not> fst (snd (capLimitLoop m e period n st)) \<Longrightarrow>
   \<not> list_ex (overLimit m e period) (subsec (snd (snd (snd (snd (capLimitLoop m e period n st))))))"
proof (induction m e period n st rule: capLimitLoop.induct)
  case (1 m e period n c tf lg s)
  show ?case
  proof (cases "int n < nosubsec s \<and> c")
    case True
    let ?st = "capLimitIteration m e period (tf, lg, s)"
    have inv: "\<not> fst ?st \<longrightarrow> \<not> list_ex (overLimit m e period) (subsec (snd (snd (snd ?st))))"
    proof
      assume "\<not> fst ?st"
      then have no: "\<not> list_ex (overLimit m e period) (subsec s)"
        by (simp add: capLimitIteration_flag)
      then have "snd (snd (snd ?st)) = s"
        by (simp add: capLimitIteration_not_limited)
      with no show "\<not> list_ex (overLimit m e period) (subsec (snd (snd (snd ?st))))" by simp
    qed
    have "\<not> fst (snd (capLimitLoop m e period (Suc n) ?st))"
      using "1.prems"(2) True by (simp add: capLimitLoop_go)
    then have "\<not> list_ex (overLimit m e period)
        (subsec (snd (snd (snd (snd (capLimitLoop m e period (Suc n) ?st))))))"
      by (rule "1.IH" [OF True inv])
    then show ?thesis using True by (simp add: capLimitLoop_go)
  next
    case False
    then show ?thesis using "1.prems" by (simp add: capLimitLoop_stop)
  qed
qed


subsection \<open>The first loop of the Fixed-Output Adjuster\<close>

lemma sumFixedOutput_body_sub:
  "fst (sumFixedOutput_body m marketDemand period sub t v) =
   fst (sumFixedOutput_body m marketDemand period sub 0 0)"
  by (simp add: sumFixedOutput_body_def Let_def)

lemma sumFixedOutput_loop_subs:
  "fst (sumFixedOutput_loop m marketDemand period subs t v) =
   map (\<lambda>sub. fst (sumFixedOutput_body m marketDemand period sub 0 0)) subs"
proof (induction subs arbitrary: t v)
  case Nil
  then show ?case by simp
next
  case (Cons sub subs)
  show ?case
    using sumFixedOutput_body_sub [of m marketDemand period sub t v]
    by (simp add: split_beta Cons.IH)
qed

lemma sumFixedOutput_body_fixedShare:
  "Subsector_getFixedShare (fst (sumFixedOutput_body m marketDemand period sub 0 0)) period =
     (let fixedOutput = Subsector_getFixedOutput (m_resetfixedOutput m period sub) period
      in if fixedOutput \<noteq> 0 \<and> marketDemand \<noteq> 0 then min 1 (fixedOutput / marketDemand) else 0)"
  by (simp add: sumFixedOutput_body_def Let_def Subsector_getFixedShare_def
        Subsector_setFixedShare_def min_def)

lemma updateAndGetOutput_subsec:
  "subsec (snd (snd (updateAndGetOutput e period s))) = subsec s"
  using sumOutput_fold_rest [of e period "enumerate 0 (subsec s)" "[]"
          "s\<lparr>sec_output := (sec_output s)[nat period := 0]\<rparr>"]
  by (simp add: updateAndGetOutput_def sumOutput_def split_beta)


subsection \<open>What the share calculation leaves untouched\<close>

lemma calcShare_sumStep_frame:
  "debugChecking (fst (calcShare_sumStep m e period i st)) = debugChecking (fst st) \<and>
   capLimitsPresent (fst (calcShare_sumStep m e period i st)) = capLimitsPresent (fst st)"
  by (simp add: calcShare_sumStep_def split_beta Let_def)

lemma calcShare_sumStep_fold_frame:
  "debugChecking (fst (fold (calcShare_sumStep m e period) is st)) = debugChecking (fst st) \<and>
   capLimitsPresent (fst (fold (calcShare_sumStep m e period) is st)) = capLimitsPresent (fst st)"
  by (induction "is" arbitrary: st) (simp_all add: calcShare_sumStep_frame)

lemma calcShare_normStep_frame:
  "debugChecking (fst (calcShare_normStep m e period shareSum fixedSum sc i st)) = debugChecking (fst st) \<and>
   capLimitsPresent (fst (calcShare_normStep m e period shareSum fixedSum sc i st)) = capLimitsPresent (fst st)"
  by (simp add: calcShare_normStep_def split_beta Let_def)

lemma calcShare_normStep_fold_frame:
  "debugChecking (fst (fold (calcShare_normStep m e period shareSum fixedSum sc) is st)) = debugChecking (fst st) \<and>
   capLimitsPresent (fst (fold (calcShare_normStep m e period shareSum fixedSum sc) is st)) = capLimitsPresent (fst st)"
  by (induction "is" arbitrary: st) (simp_all add: calcShare_normStep_frame)

lemma adjSharesCapLimit_frame:
  "debugChecking (snd (adjSharesCapLimit m e period s)) = debugChecking s"
  using capLimitLoop_frame [of m e period 0 "(True, 0, [], s)"]
  by (simp add: adjSharesCapLimit_def split_beta)


subsection \<open>The two loops of the share calculation on a sector without fixed capacity\<close>











subsection \<open>Evaluating the examples\<close>

lemmas ex_simps =
  ref_methods_def ex_env_def ex_sub_def ex_sector_def ref_calcShare_def ref_normShare_def
  ref_setShareToFixedValue_def ref_scalefixedOutput_def ref_resetfixedOutput_def
  ref_capLimitTransform_def ref_limitShares_def ref_adjShares_def ref_setoutput_def
  Subsector_getShare_def Subsector_getFixedOutput_def Subsector_getFixedShare_def
  Subsector_setFixedShare_def Subsector_getCapacityLimit_def Subsector_getCapLimitStatus_def
  Subsector_setCapLimitStatus_def Subsector_getTotalCalOutputs_def Subsector_getOutput_def
  Subsector_allOuputFixed_def nosubsec_def


subsection \<open>The share sum after calcShare\<close>





subsection \<open>Zero demand in the Fixed-Output Adjuster\<close>

text \<open>
  C2, as the code has it. With a market demand of 0, \<open>adjustForFixedOutput\<close> does not fail,
  whatever the fixed outputs are. The first loop sets every fixed share to 0 and leaves it
  there (the division \<open>fixedOutput / marketDemand\<close> is guarded by \<open>marketDemand != 0\<close>). If the
  total fixed output is positive it exceeds the demand, so every subsector's fixed output is
  scaled by the factor \<open>marketDemand / totalfixedOutput = 0\<close>, whose divisor is positive,
  \<open>totalfixedOutput\<close> becomes 0, and the share adjustment with its assertion
  \<open>marketDemand != 0\<close> is skipped. If the total is not positive, nothing is scaled and the
  share adjustment is skipped as well.
\<close>

theorem adjustForFixedOutput_zero_demand:
  assumes "sumFixedOutput_loop m 0 period (subsec s) 0 0 = (subs1, t0, vs)"
  shows "adjustForFixedOutput m 0 period s =
           Inr (if t0 > 0 then 0 else t0,
                s\<lparr>subsec := if t0 > 0 then map (m_scalefixedOutput m 0 period) subs1 else subs1\<rparr>) \<and>
         list_all (\<lambda>sub. Subsector_getFixedShare sub period = 0) subs1"
proof
  show "adjustForFixedOutput m 0 period s =
           Inr (if t0 > 0 then 0 else t0,
                s\<lparr>subsec := if t0 > 0 then map (m_scalefixedOutput m 0 period) subs1 else subs1\<rparr>)"
    using assms by (simp add: adjustForFixedOutput_def scaleDownFixedOutput_def Let_def)
next
  have "subs1 = map (\<lambda>sub. fst (sumFixedOutput_body m 0 period sub 0 0)) (subsec s)"
    using sumFixedOutput_loop_subs [of m 0 period "subsec s" 0 0] assms by simp
  then show "list_all (\<lambda>sub. Subsector_getFixedShare sub period = 0) subs1"
    by (simp add: list_all_iff sumFixedOutput_body_fixedShare)
qed

text \<open>One subsector with fixed output 5 and demand 0: the total 5 is positive, the fixed
  output is scaled to 0, and the routine returns with \<open>totalfixedOutput = 0\<close>.\<close>

theorem adjustForFixedOutput_zero_demand_witness:
  "fst (snd (sumFixedOutput_loop ref_methods 0 1
      (subsec (ex_sector [ex_sub 1 5 (1 / 2) 1] True True)) 0 0)) = 5 \<and>
   adjustForFixedOutput ref_methods 0 1 (ex_sector [ex_sub 1 5 (1 / 2) 1] True True) =
     Inr (0, (ex_sector [ex_sub 1 5 (1 / 2) 1] True True)
               \<lparr>subsec := map (ref_scalefixedOutput 0 1)
                   (fst (sumFixedOutput_loop ref_methods 0 1
                      (subsec (ex_sector [ex_sub 1 5 (1 / 2) 1] True True)) 0 0))\<rparr>)"
  using adjustForFixedOutput_zero_demand [of ref_methods 1
          "ex_sector [ex_sub 1 5 (1 / 2) 1] True True"
          "fst (sumFixedOutput_loop ref_methods 0 1
             (subsec (ex_sector [ex_sub 1 5 (1 / 2) 1] True True)) 0 0)"
          "fst (snd (sumFixedOutput_loop ref_methods 0 1
             (subsec (ex_sector [ex_sub 1 5 (1 / 2) 1] True True)) 0 0))"
          "snd (snd (sumFixedOutput_loop ref_methods 0 1
             (subsec (ex_sector [ex_sub 1 5 (1 / 2) 1] True True)) 0 0))"]
  by (simp add: sumFixedOutput_body_def ex_simps Let_def)

text \<open>
  The claim as stated fails: with a market demand of 0 and a fixed output of 5 the routine
  raises no error; it returns with the total at 0, the fixed output scaled to 0 and the
  fixed share at 0.
\<close>

theorem adjustForFixedOutput_zero_demand_counterexample:
  "\<not> isl (adjustForFixedOutput ref_methods 0 1 (ex_sector [ex_sub 1 5 (1 / 2) 1] True True)) \<and>
   fst (projr (adjustForFixedOutput ref_methods 0 1
     (ex_sector [ex_sub 1 5 (1 / 2) 1] True True))) = 0 \<and>
   Subsector_getFixedOutput (subsec (snd (projr (adjustForFixedOutput ref_methods 0 1
     (ex_sector [ex_sub 1 5 (1 / 2) 1] True True)))) ! 0) 1 = 0 \<and>
   Subsector_getFixedShare (subsec (snd (projr (adjustForFixedOutput ref_methods 0 1
     (ex_sector [ex_sub 1 5 (1 / 2) 1] True True)))) ! 0) 1 = 0"
  by (simp add: adjustForFixedOutput_def sumFixedOutput_body_def scaleDownFixedOutput_def
        ex_simps Let_def)


subsection \<open>The fixed-output cap\<close>

text \<open>
  C3. For every market demand at least 0, \<open>adjustForFixedOutput\<close> returns, and the value of
  \<open>totalfixedOutput\<close> it ends with is at most the demand. Whenever the total summed by the
  first loop exceeds the demand, \<open>scalefixedOutput\<close> is applied to every subsector with the
  factor \<open>marketDemand / totalfixedOutput\<close> and \<open>totalfixedOutput\<close> becomes the demand; the
  share adjustment that follows for a positive demand runs on the scaled subsectors, with
  the share ratio 0.
\<close>

theorem adjustForFixedOutput_cap:
  assumes "0 \<le> marketDemand"
      and "sumFixedOutput_loop m marketDemand period (subsec s) 0 0 = (subs1, t0, vs)"
  shows "\<not> isl (adjustForFixedOutput m marketDemand period s) \<and>
         fst (projr (adjustForFixedOutput m marketDemand period s)) \<le> marketDemand \<and>
         (t0 > marketDemand \<longrightarrow>
            scaleDownFixedOutput m marketDemand period subs1 t0 =
              (map (m_scalefixedOutput m (marketDemand / t0) period) subs1, marketDemand) \<and>
            fst (projr (adjustForFixedOutput m marketDemand period s)) = marketDemand \<and>
            subsec (snd (projr (adjustForFixedOutput m marketDemand period s))) =
              (if marketDemand > 0
               then map (m_adjShares m marketDemand 0 marketDemand period)
                      (map (m_scalefixedOutput m (marketDemand / t0) period) subs1)
               else map (m_scalefixedOutput m (marketDemand / t0) period) subs1))"
proof (cases "t0 > marketDemand")
  case True
  then show ?thesis
    using assms by (simp add: adjustForFixedOutput_def scaleDownFixedOutput_def Let_def)
next
  case False
  then show ?thesis
    using assms by (auto simp: adjustForFixedOutput_def scaleDownFixedOutput_def Let_def)
qed

text \<open>A subsector with fixed output 20 and a variable one, demand 10: the fixed output
  summed is 20, it is scaled by 1/2 to 10, and the total ends at 10.\<close>

theorem adjustForFixedOutput_cap_witness:
  "(0::real) \<le> 10 \<and>
   fst (snd (sumFixedOutput_loop ref_methods 10 1
     (subsec (ex_sector [ex_sub 0 20 0 1, ex_sub 1 0 0 1] True False)) 0 0)) = 20 \<and>
   \<not> isl (adjustForFixedOutput ref_methods 10 1 (ex_sector [ex_sub 0 20 0 1, ex_sub 1 0 0 1] True False)) \<and>
   fst (projr (adjustForFixedOutput ref_methods 10 1
     (ex_sector [ex_sub 0 20 0 1, ex_sub 1 0 0 1] True False))) = 10 \<and>
   map (\<lambda>sub. Subsector_getFixedOutput sub 1)
     (subsec (snd (projr (adjustForFixedOutput ref_methods 10 1
        (ex_sector [ex_sub 0 20 0 1, ex_sub 1 0 0 1] True False))))) = [10, 0]"
  using adjustForFixedOutput_cap [of 10 ref_methods 1
          "ex_sector [ex_sub 0 20 0 1, ex_sub 1 0 0 1] True False"
          "fst (sumFixedOutput_loop ref_methods 10 1
             (subsec (ex_sector [ex_sub 0 20 0 1, ex_sub 1 0 0 1] True False)) 0 0)"
          "fst (snd (sumFixedOutput_loop ref_methods 10 1
             (subsec (ex_sector [ex_sub 0 20 0 1, ex_sub 1 0 0 1] True False)) 0 0))"
          "snd (snd (sumFixedOutput_loop ref_methods 10 1
             (subsec (ex_sector [ex_sub 0 20 0 1, ex_sub 1 0 0 1] True False)) 0 0))"]
  by (simp add: adjustForFixedOutput_def scaleDownFixedOutput_def sumFixedOutput_body_def
        ex_simps Let_def)


subsection \<open>One pass of the Capacity-Limit Resolver\<close>

text \<open>
  C4, as the code has it. In each pass of the Capacity-Limit Resolver, if some subsector's
  share exceeds its effective ceiling by more than \<open>SMALL_NUM\<close> and the sum of not-limited
  shares is positive, then \<open>limitShares\<close> is applied to every subsector (so to every
  non-fixed one) with the multiplier \<open>1 + sumSharesOverLimit / sumSharesNotLimited\<close>, where
  \<open>sumSharesOverLimit\<close> is the sum of \<open>share - ceiling\<close> over the subsectors that exceed their
  ceiling by more than \<open>SMALL_NUM\<close>, and \<open>sumSharesNotLimited\<close> is the sum of the shares
  strictly under their ceiling minus the shares of the subsectors with a positive fixed
  share.
\<close>

theorem capLimitIteration_redistributes:
  fixes m e period s
  defines "sumSharesOverLimit \<equiv>
             (\<Sum>sub\<leftarrow>subsec s. if overLimit m e period sub
                then Subsector_getShare sub period - tempCapacityLimit m period sub else 0)"
  defines "sumSharesNotLimited \<equiv>
             (\<Sum>sub\<leftarrow>subsec s. if Subsector_getShare sub period < tempCapacityLimit m period sub
                then Subsector_getShare sub period else 0)
             - (\<Sum>sub\<leftarrow>subsec s. if Subsector_getFixedShare sub period > 0
                  then Subsector_getShare sub period else 0)"
  assumes "list_ex (overLimit m e period) (subsec s)" and "sumSharesNotLimited > 0"
  shows "fst (capLimitScan m e period (subsec s) tf) = True \<and>
         fst (snd (capLimitScan m e period (subsec s) tf)) = sumSharesOverLimit \<and>
         fst (snd (snd (capLimitScan m e period (subsec s) tf))) = sumSharesNotLimited \<and>
         fst (capLimitIteration m e period (tf, lg, s)) = True \<and>
         fst (snd (snd (capLimitIteration m e period (tf, lg, s)))) = lg \<and>
         snd (snd (snd (capLimitIteration m e period (tf, lg, s)))) =
           s\<lparr>subsec := map (m_limitShares m (1 + sumSharesOverLimit / sumSharesNotLimited) period)
                          (subsec s)\<rparr>"
  using assms(3,4) unfolding sumSharesOverLimit_def sumSharesNotLimited_def
  by (simp add: capLimitIteration_def capLimitScan_eq Let_def)

text \<open>The case of section 8, property 7: shares 0.6, 0.3, 0.1 with capacity limits 0.4, 1, 1.
  The first subsector is over its ceiling, the others hold 0.4 under theirs, the multiplier
  is 1.5, and the pass leaves the shares 0.4, 0.45, 0.15.\<close>

theorem capLimitIteration_redistributes_witness:
  "list_ex (overLimit ref_methods (ex_env 10) 1)
     (subsec (ex_sector [ex_sub (3 / 5) 0 0 (2 / 5), ex_sub (3 / 10) 0 0 1, ex_sub (1 / 10) 0 0 1]
                False False)) \<and>
   map (\<lambda>sub. Subsector_getShare sub 1)
     (subsec (snd (snd (snd (capLimitIteration ref_methods (ex_env 10) 1
        (0, [], ex_sector [ex_sub (3 / 5) 0 0 (2 / 5), ex_sub (3 / 10) 0 0 1, ex_sub (1 / 10) 0 0 1]
                  False False)))))) = [2 / 5, 9 / 20, 3 / 20]"
  using capLimitIteration_redistributes [of ref_methods "ex_env 10" 1
          "ex_sector [ex_sub (3 / 5) 0 0 (2 / 5), ex_sub (3 / 10) 0 0 1, ex_sub (1 / 10) 0 0 1]
             False False" 0 "[]"]
  by (simp add: ex_simps overLimit_def tempCapacityLimit_def Let_def)

text \<open>
  The claim as stated fails where a share exceeds its ceiling by no more than \<open>SMALL_NUM\<close>:
  with shares \<open>1/2 + 2^-40\<close> (capacity limit \<open>1/2\<close>) and \<open>1/2 - 2^-40\<close> (no limit), the first
  share exceeds its ceiling, the sum of \<open>max(0, share - ceiling)\<close> is \<open>2^-40\<close> and the
  not-limited sum is positive, yet the scan finds nothing over the limit, its
  \<open>sumSharesOverLimit\<close> is 0, and the pass leaves the sector as it is.
\<close>

theorem capLimitIteration_tolerance_counterexample:
  "Subsector_getShare (ex_sub (1 / 2 + 1 / 1099511627776) 0 0 (1 / 2)) 1
     > tempCapacityLimit ref_methods 1 (ex_sub (1 / 2 + 1 / 1099511627776) 0 0 (1 / 2)) \<and>
   (\<Sum>sub\<leftarrow>[ex_sub (1 / 2 + 1 / 1099511627776) 0 0 (1 / 2), ex_sub (1 / 2 - 1 / 1099511627776) 0 0 1].
      max 0 (Subsector_getShare sub 1 - tempCapacityLimit ref_methods 1 sub)) = 1 / 1099511627776 \<and>
   capLimitScan ref_methods (ex_env 10) 1
     [ex_sub (1 / 2 + 1 / 1099511627776) 0 0 (1 / 2), ex_sub (1 / 2 - 1 / 1099511627776) 0 0 1] 0
     = (False, 0, 1 / 2 - 1 / 1099511627776, 0) \<and>
   capLimitIteration ref_methods (ex_env 10) 1
     (0, [], ex_sector [ex_sub (1 / 2 + 1 / 1099511627776) 0 0 (1 / 2),
                        ex_sub (1 / 2 - 1 / 1099511627776) 0 0 1] False False)
     = (False, 0, [], ex_sector [ex_sub (1 / 2 + 1 / 1099511627776) 0 0 (1 / 2),
                                 ex_sub (1 / 2 - 1 / 1099511627776) 0 0 1] False False)"
  by (simp add: capLimitIteration_def capLimitScan_def capLimitScanStep_def tempCapacityLimit_def
        ex_simps Let_def)


subsection \<open>The passes of the Capacity-Limit Resolver\<close>

text \<open>
  C5. \<open>adjSharesCapLimit\<close> terminates on every input: its outer loop is the total function
  \<open>capLimitLoop\<close>, whose termination is proved from the number of subsectors, which no pass
  changes. It makes at most \<open>nosubsec\<close> passes, and a pass whose scan finds no subsector
  over its effective ceiling is the last one: the loop stops after it with the sector as
  it was.
\<close>

theorem adjSharesCapLimit_bounded:
  "int (adjSharesCapLimit_passes m e period s) \<le> nosubsec s \<and>
   (int n < nosubsec s \<and> \<not> fst (capLimitScan m e period (subsec s) tf) \<longrightarrow>
      capLimitLoop m e period n (True, tf, lg, s) =
        (Suc n, False, snd (snd (snd (capLimitScan m e period (subsec s) tf))), lg, s))"
proof
  show "int (adjSharesCapLimit_passes m e period s) \<le> nosubsec s"
    using capLimitLoop_passes [of 0 "(True, 0, [], s)" m e period]
    by (simp add: adjSharesCapLimit_passes_def nosubsec_def)
next
  show "int n < nosubsec s \<and> \<not> fst (capLimitScan m e period (subsec s) tf) \<longrightarrow>
      capLimitLoop m e period n (True, tf, lg, s) =
        (Suc n, False, snd (snd (snd (capLimitScan m e period (subsec s) tf))), lg, s)"
  proof
    assume a: "int n < nosubsec s \<and> \<not> fst (capLimitScan m e period (subsec s) tf)"
    then have no: "\<not> list_ex (overLimit m e period) (subsec s)"
      by (simp add: capLimitScan_eq)
    have "capLimitLoop m e period n (True, tf, lg, s) =
          capLimitLoop m e period (Suc n) (capLimitIteration m e period (tf, lg, s))"
      using a by (simp add: capLimitLoop_go)
    also have "\<dots> = capLimitLoop m e period (Suc n)
          (False, snd (snd (snd (capLimitScan m e period (subsec s) tf))), lg, s)"
      by (simp only: capLimitIteration_not_limited [OF no])
    also have "\<dots> = (Suc n, False, snd (snd (snd (capLimitScan m e period (subsec s) tf))), lg, s)"
      by (simp add: capLimitLoop_stop)
    finally show "capLimitLoop m e period n (True, tf, lg, s) =
        (Suc n, False, snd (snd (snd (capLimitScan m e period (subsec s) tf))), lg, s)" .
  qed
qed

text \<open>Shares 0.6, 0.3, 0.1 with capacity limits 0.4, 1, 1: two passes for three subsectors.
  The first pass caps the first subsector; the second finds nothing over its ceiling and
  ends the loop.\<close>

theorem adjSharesCapLimit_bounded_witness:
  "adjSharesCapLimit_passes ref_methods (ex_env 10) 1
     (ex_sector [ex_sub (3 / 5) 0 0 (2 / 5), ex_sub (3 / 10) 0 0 1, ex_sub (1 / 10) 0 0 1]
        False False) = 2 \<and>
   int (adjSharesCapLimit_passes ref_methods (ex_env 10) 1
     (ex_sector [ex_sub (3 / 5) 0 0 (2 / 5), ex_sub (3 / 10) 0 0 1, ex_sub (1 / 10) 0 0 1]
        False False))
     \<le> nosubsec (ex_sector [ex_sub (3 / 5) 0 0 (2 / 5), ex_sub (3 / 10) 0 0 1, ex_sub (1 / 10) 0 0 1]
        False False) \<and>
   (int 0 < nosubsec (ex_sector [ex_sub (2 / 5) 0 0 1, ex_sub (3 / 5) 0 0 1] False False) \<and>
    \<not> fst (capLimitScan ref_methods (ex_env 10) 1
             (subsec (ex_sector [ex_sub (2 / 5) 0 0 1, ex_sub (3 / 5) 0 0 1] False False)) 0)) \<and>
   capLimitLoop ref_methods (ex_env 10) 1 0
     (True, 0, [], ex_sector [ex_sub (2 / 5) 0 0 1, ex_sub (3 / 5) 0 0 1] False False) =
     (Suc 0, False, 0, [], ex_sector [ex_sub (2 / 5) 0 0 1, ex_sub (3 / 5) 0 0 1] False False)"
  using adjSharesCapLimit_bounded [of ref_methods "ex_env 10" 1
          "ex_sector [ex_sub (3 / 5) 0 0 (2 / 5), ex_sub (3 / 10) 0 0 1, ex_sub (1 / 10) 0 0 1]
             False False" 0 0 "[]"]
        adjSharesCapLimit_bounded [of ref_methods "ex_env 10" 1
          "ex_sector [ex_sub (2 / 5) 0 0 1, ex_sub (3 / 5) 0 0 1] False False" 0 0 "[]"]
  by (simp add: adjSharesCapLimit_passes_def capLimitLoop.simps capLimitIteration_def
        capLimitScan_def capLimitScanStep_def tempCapacityLimit_def ex_simps Let_def)


subsection \<open>The reports of the Capacity-Limit Resolver\<close>

text \<open>
  C6, as the code has it. A subsector counts as over its ceiling only when its share exceeds
  the ceiling by more than \<open>SMALL_NUM\<close>, and only such excesses enter the sum of shares over
  limit. In \<open>adjSharesCapLimit\<close>, a pass whose scan finds the sum of not-limited shares at
  most 0 (in particular 0) and that sum of shares over limit positive reports insufficient
  capacity and leaves the sector as it is, and the report stays in the log the routine
  returns with. When the loop ends with \<open>capLimited\<close> still set, and so whenever a subsector
  of the sector returned is still over its ceiling by more than \<open>SMALL_NUM\<close>, the unresolved
  limit is reported. The routine has no failing branch: it returns its log and the sector
  it reached.
\<close>

theorem adjSharesCapLimit_reports:
  "(int n < nosubsec s \<and> capLimitScan m e period (subsec s) tf = (c, ov, nl, tf1) \<and>
      nl \<le> 0 \<and> ov > 0 \<longrightarrow>
      capLimitIteration m e period (tf, lg, s) = (True, tf1, lg @ [InsufficientCapacity], s) \<and>
      InsufficientCapacity
        \<in> set (fst (snd (snd (snd (capLimitLoop m e period n (True, tf, lg, s))))))) \<and>
   (fst (snd (capLimitLoop m e period 0 (True, 0, [], s))) \<longrightarrow>
      CapLimitNotResolved \<in> set (fst (adjSharesCapLimit m e period s))) \<and>
   (list_ex (overLimit m e period) (subsec (snd (adjSharesCapLimit m e period s))) \<longrightarrow>
      CapLimitNotResolved \<in> set (fst (adjSharesCapLimit m e period s))) \<and>
   snd (adjSharesCapLimit m e period s)
     = snd (snd (snd (snd (capLimitLoop m e period 0 (True, 0, [], s)))))"
proof (intro conjI impI)
  assume a: "int n < nosubsec s \<and> capLimitScan m e period (subsec s) tf = (c, ov, nl, tf1) \<and>
      nl \<le> 0 \<and> ov > 0"
  then have scan: "capLimitScan m e period (subsec s) tf = (c, ov, nl, tf1)" by simp
  have c: "c"
  proof (rule ccontr)
    assume "\<not> c"
    then have "\<not> list_ex (overLimit m e period) (subsec s)"
      using scan by (simp add: capLimitScan_eq)
    then have "ov = 0"
      using scan sum_list_if_none [of "overLimit m e period" "subsec s"]
      by (simp add: capLimitScan_eq)
    with a show False by simp
  qed
  show it: "capLimitIteration m e period (tf, lg, s) = (True, tf1, lg @ [InsufficientCapacity], s)"
    using a c by (simp add: capLimitIteration_def Let_def)
  have "capLimitLoop m e period n (True, tf, lg, s) =
        capLimitLoop m e period (Suc n) (True, tf1, lg @ [InsufficientCapacity], s)"
    using a by (simp add: capLimitLoop_go it)
  moreover have "set (lg @ [InsufficientCapacity]) \<subseteq>
      set (fst (snd (snd (snd (capLimitLoop m e period (Suc n)
        (True, tf1, lg @ [InsufficientCapacity], s))))))"
    using capLimitLoop_log [of "(True, tf1, lg @ [InsufficientCapacity], s)" m e period "Suc n"]
    by simp
  ultimately show "InsufficientCapacity
        \<in> set (fst (snd (snd (snd (capLimitLoop m e period n (True, tf, lg, s))))))"
    by auto
next
  assume "fst (snd (capLimitLoop m e period 0 (True, 0, [], s)))"
  then show "CapLimitNotResolved \<in> set (fst (adjSharesCapLimit m e period s))"
    by (simp add: adjSharesCapLimit_def split_beta)
next
  assume ov: "list_ex (overLimit m e period) (subsec (snd (adjSharesCapLimit m e period s)))"
  have s1: "snd (adjSharesCapLimit m e period s)
      = snd (snd (snd (snd (capLimitLoop m e period 0 (True, 0, [], s)))))"
    by (simp add: adjSharesCapLimit_def split_beta)
  have "fst (snd (capLimitLoop m e period 0 (True, 0, [], s)))"
  proof (rule ccontr)
    assume "\<not> fst (snd (capLimitLoop m e period 0 (True, 0, [], s)))"
    then have "\<not> list_ex (overLimit m e period)
        (subsec (snd (snd (snd (snd (capLimitLoop m e period 0 (True, 0, [], s)))))))"
      using capLimitLoop_resolved [of "(True, 0, [], s)" m e period 0] by simp
    with ov s1 show False by simp
  qed
  then show "CapLimitNotResolved \<in> set (fst (adjSharesCapLimit m e period s))"
    by (simp add: adjSharesCapLimit_def split_beta)
next
  show "snd (adjSharesCapLimit m e period s)
      = snd (snd (snd (snd (capLimitLoop m e period 0 (True, 0, [], s)))))"
    by (simp add: adjSharesCapLimit_def split_beta)
qed

text \<open>A single subsector with share 1 and capacity limit 0.5: nothing is under its limit, 0.5
  is over it. The pass reports insufficient capacity, the budget of one pass is used up, the
  unresolved limit is reported, and the sector comes back as it was.\<close>

theorem adjSharesCapLimit_reports_witness:
  "(int 0 < nosubsec (ex_sector [ex_sub 1 0 0 (1 / 2)] False False) \<and>
    capLimitScan ref_methods (ex_env 10) 1 (subsec (ex_sector [ex_sub 1 0 0 (1 / 2)] False False)) 0
      = (True, 1 / 2, 0, 0) \<and> (0::real) \<le> 0 \<and> (1 / 2 :: real) > 0) \<and>
   list_ex (overLimit ref_methods (ex_env 10) 1)
     (subsec (snd (adjSharesCapLimit ref_methods (ex_env 10) 1
        (ex_sector [ex_sub 1 0 0 (1 / 2)] False False)))) \<and>
   adjSharesCapLimit ref_methods (ex_env 10) 1 (ex_sector [ex_sub 1 0 0 (1 / 2)] False False)
     = ([InsufficientCapacity, CapLimitNotResolved], ex_sector [ex_sub 1 0 0 (1 / 2)] False False)"
  using adjSharesCapLimit_reports [of 0 "ex_sector [ex_sub 1 0 0 (1 / 2)] False False"
          ref_methods "ex_env 10" 1 0 True "1 / 2" 0 0 "[]"]
  by (simp add: adjSharesCapLimit_def capLimitLoop.simps capLimitIteration_def
        capLimitScan_def capLimitScanStep_def overLimit_def tempCapacityLimit_def ex_simps Let_def)

text \<open>
  The claim as stated fails where the excesses are within \<open>SMALL_NUM\<close>: with shares
  \<open>1/2 + 2^-40\<close> (capacity limit \<open>1/2\<close>) and \<open>1/2 - 2^-40\<close> (capacity limit \<open>1/2 - 2^-39\<close>),
  which sum to 1, both shares are over their ceilings, the shares over limit sum to \<open>2^-39\<close>
  and no share is under its ceiling, yet \<open>adjSharesCapLimit\<close> reports nothing.
\<close>

theorem adjSharesCapLimit_reports_counterexample:
  "Subsector_getShare (ex_sub (1 / 2 + 1 / 1099511627776) 0 0 (1 / 2)) 1
     > tempCapacityLimit ref_methods 1 (ex_sub (1 / 2 + 1 / 1099511627776) 0 0 (1 / 2)) \<and>
   Subsector_getShare (ex_sub (1 / 2 - 1 / 1099511627776) 0 0 (1 / 2 - 1 / 549755813888)) 1
     > tempCapacityLimit ref_methods 1
         (ex_sub (1 / 2 - 1 / 1099511627776) 0 0 (1 / 2 - 1 / 549755813888)) \<and>
   (\<Sum>sub\<leftarrow>[ex_sub (1 / 2 + 1 / 1099511627776) 0 0 (1 / 2),
            ex_sub (1 / 2 - 1 / 1099511627776) 0 0 (1 / 2 - 1 / 549755813888)].
      max 0 (Subsector_getShare sub 1 - tempCapacityLimit ref_methods 1 sub)) = 1 / 549755813888 \<and>
   (\<Sum>sub\<leftarrow>[ex_sub (1 / 2 + 1 / 1099511627776) 0 0 (1 / 2),
            ex_sub (1 / 2 - 1 / 1099511627776) 0 0 (1 / 2 - 1 / 549755813888)].
      if Subsector_getShare sub 1 < tempCapacityLimit ref_methods 1 sub
      then Subsector_getShare sub 1 else 0) = 0 \<and>
   adjSharesCapLimit ref_methods (ex_env 10) 1
     (ex_sector [ex_sub (1 / 2 + 1 / 1099511627776) 0 0 (1 / 2),
                 ex_sub (1 / 2 - 1 / 1099511627776) 0 0 (1 / 2 - 1 / 549755813888)] False False)
     = ([], ex_sector [ex_sub (1 / 2 + 1 / 1099511627776) 0 0 (1 / 2),
                       ex_sub (1 / 2 - 1 / 1099511627776) 0 0 (1 / 2 - 1 / 549755813888)]
              False False)"
  by (simp add: adjSharesCapLimit_def capLimitLoop.simps capLimitIteration_def
        capLimitScan_def capLimitScanStep_def tempCapacityLimit_def ex_simps Let_def)


subsection \<open>The calibration check\<close>

text \<open>
  C7. For a period greater than 0 with calibration active, \<open>isAllCalibrated\<close> returns false
  exactly when \<open>calOutputs > 0\<close> and (\<open>calDiff > calAccuracy\<close>, or
  \<open>|calDiff / calOutputs| > calAccuracy\<close> while all subsector outputs are fixed or
  calibrated), where \<open>calOutputs\<close> is the sum of the subsectors' calibrated outputs and
  \<open>calDiff\<close> is \<open>calOutputs\<close> plus the total fixed output minus the sector's output. For a
  period at most 0, or with calibration inactive, it returns true. It has no failing branch:
  the function returns a boolean on every input.
\<close>

theorem isAllCalibrated_result:
  fixes e s period calAccuracy printWarnings
  defines "calOutputs \<equiv> (\<Sum>sub\<leftarrow>subsec s. Subsector_getTotalCalOutputs sub period)"
  defines "calDiff \<equiv> (calOutputs + (\<Sum>sub\<leftarrow>subsec s. Subsector_getFixedOutput sub period))
                       - getOutput s period"
  shows "snd (isAllCalibrated e s period calAccuracy printWarnings) =
           (if period > 0 \<and> calibrationActive e
            then \<not> (calOutputs > 0 \<and>
                     (calDiff > calAccuracy \<or>
                      (\<bar>calDiff / calOutputs\<bar> > calAccuracy \<and>
                       list_all (\<lambda>sub. Subsector_allOuputFixed sub period) (subsec s))))
            else True)"
  unfolding calOutputs_def calDiff_def
  by (simp add: isAllCalibrated_def Let_def outputsAllFixed_def
        getCalOutput_sum getFixedOutput_sum)

text \<open>The case of section 8, property 8: calibrated output 95, no fixed output, sector
  output 100, accuracy 0.01, all outputs fixed: the check fails. In period 0 it passes.\<close>

theorem isAllCalibrated_result_witness:
  "snd (isAllCalibrated (ex_env 100)
          ((ex_sector [(ex_sub 1 0 0 1)\<lparr>sub_calOutput := (\<lambda>period. 95),
                                       sub_allOutputFixed := (\<lambda>period. True)\<rparr>] False False)
             \<lparr>sec_output := [0, 100]\<rparr>) 1 (1 / 100) False) = False \<and>
   snd (isAllCalibrated (ex_env 100)
          ((ex_sector [(ex_sub 1 0 0 1)\<lparr>sub_calOutput := (\<lambda>period. 95),
                                       sub_allOutputFixed := (\<lambda>period. True)\<rparr>] False False)
             \<lparr>sec_output := [0, 100]\<rparr>) 0 (1 / 100) False) = True"
  using isAllCalibrated_result [of "ex_env 100"
          "(ex_sector [(ex_sub 1 0 0 1)\<lparr>sub_calOutput := (\<lambda>period. 95),
                                       sub_allOutputFixed := (\<lambda>period. True)\<rparr>] False False)
             \<lparr>sec_output := [0, 100]\<rparr>" 1 "1 / 100" False]
        isAllCalibrated_result [of "ex_env 100"
          "(ex_sector [(ex_sub 1 0 0 1)\<lparr>sub_calOutput := (\<lambda>period. 95),
                                       sub_allOutputFixed := (\<lambda>period. True)\<rparr>] False False)
             \<lparr>sec_output := [0, 100]\<rparr>" 0 "1 / 100" False]
  by (simp add: ex_simps getOutput_def)


subsection \<open>Negative demand in supply\<close>

text \<open>
  C8, as the code has it. When \<open>supply\<close> reads a market demand that is strictly negative, it
  logs an error first and goes on with the negative value unchanged: the value is handed
  to \<open>adjustForFixedOutput\<close> when the sector has fixed capacity, and to \<open>setoutput\<close> of every
  subsector.
\<close>

theorem supply_negative_demand:
  assumes "getDemand e period < 0"
      and "Sector_supply m e period s = Inr (lg, s1)"
  shows "hd lg = NegativeDemand \<and>
         subsec s1 =
           map (m_setoutput m (getDemand e period) period)
             (subsec (if anyFixedCapacity s
                      then snd (projr (adjustForFixedOutput m (getDemand e period) period s))
                      else s))"
proof (cases "anyFixedCapacity s")
  case True
  show ?thesis
  proof (cases "adjustForFixedOutput m (getDemand e period) period s")
    case (Inl err)
    with True assms(2) show ?thesis by (simp add: Sector_supply_def Let_def)
  next
    case (Inr r)
    obtain t s0 where r: "r = (t, s0)" by (cases r)
    show ?thesis
      using True Inr r assms updateAndGetOutput_subsec
              [of e period "s0\<lparr>subsec := map (m_setoutput m (getDemand e period) period) (subsec s0)\<rparr>"]
      by (auto simp: Sector_supply_def Let_def split_beta split: if_splits)
  qed
next
  case False
  show ?thesis
    using False assms updateAndGetOutput_subsec
            [of e period "s\<lparr>subsec := map (m_setoutput m (getDemand e period) period) (subsec s)\<rparr>"]
    by (auto simp: Sector_supply_def Let_def split_beta split: if_splits)
qed

text \<open>One variable subsector with share 1 and a demand of -5: the error is logged and the
  subsector's output is set from the demand -5.\<close>

theorem supply_negative_demand_witness:
  "getDemand (ex_env (- 5)) 1 < 0 \<and>
   \<not> isl (Sector_supply ref_methods (ex_env (- 5)) 1 (ex_sector [ex_sub 1 0 0 1] False False)) \<and>
   hd (fst (projr (Sector_supply ref_methods (ex_env (- 5)) 1
     (ex_sector [ex_sub 1 0 0 1] False False)))) = NegativeDemand \<and>
   subsec (snd (projr (Sector_supply ref_methods (ex_env (- 5)) 1
     (ex_sector [ex_sub 1 0 0 1] False False)))) =
     map (ref_setoutput (- 5) 1) [ex_sub 1 0 0 1]"
  using supply_negative_demand [of "ex_env (- 5)" 1 ref_methods
          "ex_sector [ex_sub 1 0 0 1] False False"
          "fst (projr (Sector_supply ref_methods (ex_env (- 5)) 1
             (ex_sector [ex_sub 1 0 0 1] False False)))"
          "snd (projr (Sector_supply ref_methods (ex_env (- 5)) 1
             (ex_sector [ex_sub 1 0 0 1] False False)))"]
  by (simp add: Sector_supply_def ex_simps Let_def)

text \<open>
  The claim as stated fails: with a demand of -5 the subsector's output is set to -5, driven
  by the negative value, where a demand of 0 sets it to 0; and in a sector with fixed
  capacity, a fixed output of 5 is scaled by \<open>-5 / 5\<close> to -5.
\<close>

theorem supply_negative_demand_counterexample:
  "\<not> isl (Sector_supply ref_methods (ex_env (- 5)) 1 (ex_sector [ex_sub 1 0 0 1] False False)) \<and>
   fst (projr (Sector_supply ref_methods (ex_env (- 5)) 1
     (ex_sector [ex_sub 1 0 0 1] False False))) = [NegativeDemand] \<and>
   Subsector_getOutput (subsec (snd (projr (Sector_supply ref_methods (ex_env (- 5)) 1
     (ex_sector [ex_sub 1 0 0 1] False False)))) ! 0) 1 = - 5 \<and>
   Subsector_getOutput (subsec (snd (projr (Sector_supply ref_methods (ex_env 0) 1
     (ex_sector [ex_sub 1 0 0 1] False False)))) ! 0) 1 = 0 \<and>
   Subsector_getFixedOutput (subsec (snd (projr (Sector_supply ref_methods (ex_env (- 5)) 1
     (ex_sector [ex_sub 1 5 (1 / 2) 1] True False)))) ! 0) 1 = - 5"
  by (simp add: Sector_supply_def adjustForFixedOutput_def sumFixedOutput_body_def
        scaleDownFixedOutput_def ex_simps Let_def)


subsection \<open>The implied fixed share\<close>

text \<open>
  C9, as the code has it. For every subsector whose fixed output (read after
  \<open>resetfixedOutput\<close>) is nonzero and every nonzero market demand, so every positive one, the
  first loop of the Fixed-Output Adjuster sets that subsector's fixed share to
  \<open>fixedOutput / marketDemand\<close> capped at 1.
\<close>

theorem sumFixedOutput_fixed_share:
  assumes "marketDemand \<noteq> 0" and "i < length (subsec s)"
      and "Subsector_getFixedOutput (m_resetfixedOutput m period (subsec s ! i)) period \<noteq> 0"
  shows "Subsector_getFixedShare
           (fst (sumFixedOutput_loop m marketDemand period (subsec s) 0 0) ! i) period =
         min 1 (Subsector_getFixedOutput (m_resetfixedOutput m period (subsec s ! i)) period
                  / marketDemand)"
  using assms
  by (simp add: sumFixedOutput_loop_subs sumFixedOutput_body_fixedShare Let_def)

text \<open>Fixed outputs 5 and 20 with demand 10: the fixed shares set are 1/2 and 1.\<close>

theorem sumFixedOutput_fixed_share_witness:
  "(10::real) \<noteq> 0 \<and>
   (1::nat) < length (subsec (ex_sector [ex_sub 0 5 0 1, ex_sub 0 20 0 1] True False)) \<and>
   Subsector_getFixedOutput (m_resetfixedOutput ref_methods 1
     (subsec (ex_sector [ex_sub 0 5 0 1, ex_sub 0 20 0 1] True False) ! 0)) 1 = 5 \<and>
   Subsector_getFixedOutput (m_resetfixedOutput ref_methods 1
     (subsec (ex_sector [ex_sub 0 5 0 1, ex_sub 0 20 0 1] True False) ! 1)) 1 = 20 \<and>
   Subsector_getFixedShare
     (fst (sumFixedOutput_loop ref_methods 10 1
        (subsec (ex_sector [ex_sub 0 5 0 1, ex_sub 0 20 0 1] True False)) 0 0) ! 0) 1 = 1 / 2 \<and>
   Subsector_getFixedShare
     (fst (sumFixedOutput_loop ref_methods 10 1
        (subsec (ex_sector [ex_sub 0 5 0 1, ex_sub 0 20 0 1] True False)) 0 0) ! 1) 1 = 1"
  using sumFixedOutput_fixed_share [of 10 0 "ex_sector [ex_sub 0 5 0 1, ex_sub 0 20 0 1] True False"
          ref_methods 1]
        sumFixedOutput_fixed_share [of 10 1 "ex_sector [ex_sub 0 5 0 1, ex_sub 0 20 0 1] True False"
          ref_methods 1]
  by (simp add: ex_simps)

text \<open>
  The claim as stated fails where the fixed output exceeds the demand: with a fixed output
  of 20 and a demand of 10 the adjuster leaves the fixed share at 1, not at
  \<open>fixedOutput / marketDemand = 2\<close>.
\<close>

theorem adjustForFixedOutput_fixed_share_counterexample:
  "\<not> isl (adjustForFixedOutput ref_methods 10 1 (ex_sector [ex_sub 1 20 (1 / 2) 1] True True)) \<and>
   Subsector_getFixedShare (subsec (snd (projr (adjustForFixedOutput ref_methods 10 1
     (ex_sector [ex_sub 1 20 (1 / 2) 1] True True)))) ! 0) 1 = 1 \<and>
   Subsector_getFixedOutput (m_resetfixedOutput ref_methods 1
     (subsec (ex_sector [ex_sub 1 20 (1 / 2) 1] True True) ! 0)) 1 / 10 = 2 \<and>
   Subsector_getFixedShare (fst (sumFixedOutput_loop ref_methods 10 1
     (subsec (ex_sector [ex_sub 1 20 (1 / 2) 1] True True)) 0 0) ! 0) 1 = 1"
  by (simp add: adjustForFixedOutput_def sumFixedOutput_body_def scaleDownFixedOutput_def
        ex_simps Let_def)


subsection \<open>The sector output\<close>

text \<open>
  C10. For every period greater than 0, and for period 0 when the stored sector output is
  0, \<open>updateAndGetOutput\<close> stores the sum of all subsector outputs in \<^verbatim>\<open>output[ period ]\<close> and
  returns it; for period 0 with a nonzero stored output it returns the stored value and
  leaves the sector as it is, without reading the subsectors.
\<close>

theorem updateAndGetOutput_result:
  assumes "0 \<le> period" and "nat period < length (sec_output s)"
  shows "(period > 0 \<or> sec_output s ! nat period = 0 \<longrightarrow>
            fst (updateAndGetOutput e period s) = (\<Sum>sub\<leftarrow>subsec s. Subsector_getOutput sub period) \<and>
            sec_output (snd (snd (updateAndGetOutput e period s))) =
              (sec_output s)[nat period := (\<Sum>sub\<leftarrow>subsec s. Subsector_getOutput sub period)]) \<and>
         (period = 0 \<and> sec_output s ! nat period \<noteq> 0 \<longrightarrow>
            updateAndGetOutput e period s = (sec_output s ! nat period, [], s))"
proof -
  have out: "sec_output (snd (sumOutput e period s)) =
           (sec_output s)[nat period := (\<Sum>sub\<leftarrow>subsec s. Subsector_getOutput sub period)]"
    by (rule sumOutput_output [OF assms(2)])
  have rd: "sec_output (snd (sumOutput e period s)) ! nat period
      = (\<Sum>sub\<leftarrow>subsec s. Subsector_getOutput sub period)"
    using assms(2) by (simp add: out)
  show ?thesis
  proof (cases "period > 0 \<or> sec_output s ! nat period = 0")
    case True
    then have "updateAndGetOutput e period s =
        (sec_output (snd (sumOutput e period s)) ! nat period, fst (sumOutput e period s),
         snd (sumOutput e period s))"
      by (simp add: updateAndGetOutput_def split_beta)
    with True assms(2) show ?thesis by (auto simp: out)
  next
    case False
    with assms(1) have p0: "period = 0" and nz: "sec_output s ! 0 \<noteq> 0" by auto
    have "updateAndGetOutput e 0 s = (sec_output s ! 0, [], s)"
      using nz by (simp add: updateAndGetOutput_def)
    with p0 nz show ?thesis by simp
  qed
qed

text \<open>Two subsectors with outputs 3 and 4: in period 1 the sum 7 is returned; in period 0
  with the stored output 9 the stored value is returned.\<close>

theorem updateAndGetOutput_result_witness:
  "(0::int) \<le> 1 \<and>
   nat 1 < length (sec_output (ex_sector [(ex_sub 1 0 0 1)\<lparr>sub_output := (\<lambda>period. 3)\<rparr>,
                                           (ex_sub 1 0 0 1)\<lparr>sub_output := (\<lambda>period. 4)\<rparr>] False False)) \<and>
   fst (updateAndGetOutput (ex_env 7) 1
          (ex_sector [(ex_sub 1 0 0 1)\<lparr>sub_output := (\<lambda>period. 3)\<rparr>,
                      (ex_sub 1 0 0 1)\<lparr>sub_output := (\<lambda>period. 4)\<rparr>] False False)) = 7 \<and>
   fst (updateAndGetOutput (ex_env 7) 0
          ((ex_sector [(ex_sub 1 0 0 1)\<lparr>sub_output := (\<lambda>period. 3)\<rparr>,
                       (ex_sub 1 0 0 1)\<lparr>sub_output := (\<lambda>period. 4)\<rparr>] False False)
             \<lparr>sec_output := [9, 0]\<rparr>)) = 9"
  using updateAndGetOutput_result [of 1
          "ex_sector [(ex_sub 1 0 0 1)\<lparr>sub_output := (\<lambda>period. 3)\<rparr>,
                      (ex_sub 1 0 0 1)\<lparr>sub_output := (\<lambda>period. 4)\<rparr>] False False" "ex_env 7"]
        updateAndGetOutput_result [of 0
          "(ex_sector [(ex_sub 1 0 0 1)\<lparr>sub_output := (\<lambda>period. 3)\<rparr>,
                       (ex_sub 1 0 0 1)\<lparr>sub_output := (\<lambda>period. 4)\<rparr>] False False)
             \<lparr>sec_output := [9, 0]\<rparr>" "ex_env 7"]
  by (simp add: ex_simps)

end
